theory Spec2Isabelle
  imports Complex_Main
begin

section \<open>Python values and exceptions\<close>

text \<open>
  The adapters of \<^verbatim>\<open>api_handlers.py\<close> return plain dictionaries and
  \<^verbatim>\<open>main.py\<close> reads them with \<^verbatim>\<open>.get\<close>. A payload is therefore a value of the
  JSON-like type below; a dictionary is an association list that is looked up with
  \<^const>\<open>map_of\<close>.

  A Python float is either finite, \<open>PFloat r\<close> with its value \<open>r\<close>, or one of the three
  values \<^verbatim>\<open>nan\<close>, \<^verbatim>\<open>inf\<close> and \<^verbatim>\<open>-inf\<close>. Arithmetic on finite floats is carried
  out on their values: the rounding of a sum or of a quotient to the nearest double is
  not modelled. The conversion of an int to a float, which fails on an int that is too
  large, is modelled. The prices that the sources give are finite floats.
\<close>

datatype pyval =
    PNone
  | PBool bool
  | PInt int
  | PFloat real
  | PNaN
  | PInf
  | PNegInf
  | PStr string
  | PList "pyval list"
  | PDict "(string \<times> pyval) list"

text \<open>
  What pydantic reports for a field of a request body: a value that is no member of the
  enumeration of the field, a string shorter than \<^verbatim>\<open>min_length\<close>, a string longer than
  \<^verbatim>\<open>max_length\<close>. The first argument is the name of the field.
\<close>

datatype validation_issue =
    Enum_error string string
  | Min_length_error string nat
  | Max_length_error string nat

text \<open>
  Exceptions are values. The four adapters wrap whatever they catch in a fresh
  \<^verbatim>\<open>Exception\<close> whose message starts with the name of the source; the endpoint wraps
  whatever it catches in an \<^verbatim>\<open>HTTPException\<close> with status 500. The message texts
  are kept structurally, as the exception that was caught. A request body that does not
  validate is answered with its list of issues.
\<close>

datatype py_error =
    AttributeError
  | TypeError
  | KeyError
  | IndexError
  | ValueError
  | ZeroDivisionError
  | OverflowError
  | ValidationError
  | RequestValidationError "validation_issue list"
  | SourceError string
  | Amazon_API_error py_error
  | eBay_API_error py_error
  | Etsy_API_error py_error
  | Google_Trends_API_error py_error
  | HTTPException nat http_detail
and http_detail =
    Unsupported_platform string
  | Error_processing_request py_error

definition bindE :: "'e + 'a \<Rightarrow> ('a \<Rightarrow> 'e + 'b) \<Rightarrow> 'e + 'b" where
  "bindE m f = (case m of Inl e \<Rightarrow> Inl e | Inr x \<Rightarrow> f x)"

text \<open>\<^verbatim>\<open>obj.get(key, default)\<close>: only a dictionary has the method.\<close>

fun dict_get :: "pyval \<Rightarrow> string \<Rightarrow> pyval \<Rightarrow> py_error + pyval" where
  "dict_get (PDict kvs) k d = Inr (case map_of kvs k of None \<Rightarrow> d | Some v \<Rightarrow> v)"
| "dict_get _ k d = Inl AttributeError"

text \<open>\<^verbatim>\<open>key in obj\<close> for a dictionary.\<close>

fun dict_contains :: "pyval \<Rightarrow> string \<Rightarrow> bool" where
  "dict_contains (PDict kvs) k = (map_of kvs k \<noteq> None)"
| "dict_contains _ k = False"

text \<open>
  The float that an expression evaluates to, and the comparisons \<^verbatim>\<open>a < b\<close> and
  \<^verbatim>\<open>a <= b\<close> of two floats: every comparison with \<^verbatim>\<open>nan\<close> is false.
\<close>

datatype pyfloat =
    Finite real
  | NaN
  | PosInf
  | NegInf

fun float_less :: "pyfloat \<Rightarrow> pyfloat \<Rightarrow> bool" where
  "float_less (Finite a) (Finite b) = (a < b)"
| "float_less (Finite a) PosInf = True"
| "float_less NegInf (Finite b) = True"
| "float_less NegInf PosInf = True"
| "float_less _ _ = False"

fun float_le :: "pyfloat \<Rightarrow> pyfloat \<Rightarrow> bool" where
  "float_le (Finite a) (Finite b) = (a \<le> b)"
| "float_le (Finite a) PosInf = True"
| "float_le NegInf (Finite b) = True"
| "float_le NegInf NegInf = True"
| "float_le NegInf PosInf = True"
| "float_le PosInf PosInf = True"
| "float_le _ _ = False"

text \<open>
  \<^verbatim>\<open>float(i)\<close> for an int raises \<^verbatim>\<open>OverflowError\<close> when \<open>i\<close> rounds to a magnitude
  beyond the largest double, which is the case from \<^verbatim>\<open>2**1024 - 2**970\<close> on.
\<close>

definition int_too_large :: "int \<Rightarrow> bool" where
  "int_too_large i = (2 ^ 1024 - 2 ^ 970 \<le> \<bar>i\<bar>)"

text \<open>
  \<^verbatim>\<open>x / d\<close> for a finite float \<^verbatim>\<open>d\<close>: defined on the numeric types (a bool is an
  int in Python), a \<^verbatim>\<open>TypeError\<close> on everything else. An int is converted to a float
  first. The code divides by \<^verbatim>\<open>5.0\<close> and by \<^verbatim>\<open>100.0\<close>, where the quotient of a
  finite float is finite.
\<close>

fun truediv :: "pyval \<Rightarrow> real \<Rightarrow> py_error + pyfloat" where
  "truediv (PInt i) d =
     (if int_too_large i then Inl OverflowError
      else if d = 0 then Inl ZeroDivisionError
      else Inr (Finite (real_of_int i / d)))"
| "truediv (PBool b) d =
     (if d = 0 then Inl ZeroDivisionError else Inr (Finite ((if b then 1 else 0) / d)))"
| "truediv (PFloat r) d = (if d = 0 then Inl ZeroDivisionError else Inr (Finite (r / d)))"
| "truediv PNaN d = (if d = 0 then Inl ZeroDivisionError else Inr NaN)"
| "truediv PInf d =
     (if d = 0 then Inl ZeroDivisionError else Inr (if 0 < d then PosInf else NegInf))"
| "truediv PNegInf d =
     (if d = 0 then Inl ZeroDivisionError else Inr (if 0 < d then NegInf else PosInf))"
| "truediv _ d = Inl TypeError"

text \<open>\<^verbatim>\<open>min(a, b)\<close> with two arguments keeps the first unless the second is smaller.\<close>

definition py_min2 :: "pyfloat \<Rightarrow> pyfloat \<Rightarrow> pyfloat" where
  "py_min2 a b = (if float_less b a then b else a)"

text \<open>
  \<^verbatim>\<open>min(xs)\<close>, \<^verbatim>\<open>max(xs)\<close> and \<^verbatim>\<open>sum(xs)\<close> over a list of numbers. The first two
  raise \<^verbatim>\<open>ValueError\<close> on an empty list.
\<close>

fun py_min :: "real list \<Rightarrow> py_error + real" where
  "py_min [] = Inl ValueError"
| "py_min (x # xs) = Inr (fold (\<lambda>y m. if y < m then y else m) xs x)"

fun py_max :: "real list \<Rightarrow> py_error + real" where
  "py_max [] = Inl ValueError"
| "py_max (x # xs) = Inr (fold (\<lambda>y m. if m < y then y else m) xs x)"

definition py_sum :: "real list \<Rightarrow> real" where
  "py_sum xs = foldl (+) 0 xs"

text \<open>\<^verbatim>\<open>a / b\<close> on numbers.\<close>

definition py_div :: "real \<Rightarrow> real \<Rightarrow> py_error + real" where
  "py_div a b = (if b = 0 then Inl ZeroDivisionError else Inr (a / b))"

section \<open>Sentiment scoring (main.py)\<close>

text \<open>
  \<^verbatim>\<open>Platform\<close> is an enumeration of three members. It is a string enumeration, so a
  member compares equal to the string that is its value; \<^verbatim>\<open>Platform(v)\<close> is the member
  with the value \<^verbatim>\<open>v\<close>, if there is one.
\<close>

datatype Platform = AMAZON | EBAY | GOOGLE

fun Platform_value :: "Platform \<Rightarrow> string" where
  "Platform_value AMAZON = ''amazon''"
| "Platform_value EBAY = ''ebay''"
| "Platform_value GOOGLE = ''google''"

definition Platform_of :: "string \<Rightarrow> Platform option" where
  "Platform_of v = map_of (map (\<lambda>m. (Platform_value m, m)) [AMAZON, EBAY, GOOGLE]) v"

text \<open>
  The body of the \<^verbatim>\<open>try\<close> block of \<^verbatim>\<open>calculate_market_sentiment\<close>. The parameter
  \<^verbatim>\<open>platform\<close> is declared a \<^verbatim>\<open>str\<close>.
\<close>

definition calculate_market_sentiment_body :: "pyval \<Rightarrow> string \<Rightarrow> py_error + pyfloat" where
  "calculate_market_sentiment_body trend_data platform =
     (if platform = Platform_value AMAZON then
        bindE (dict_get trend_data ''review_metrics'' (PDict [])) (\<lambda>review_metrics.
        bindE (dict_get review_metrics ''avg_rating'' (PInt 0)) (\<lambda>avg_rating.
        bindE (truediv avg_rating 5) (\<lambda>q. Inr (py_min2 q (Finite 1)))))
      else if platform = Platform_value EBAY then
        bindE (dict_get trend_data ''condition_distribution'' (PDict [])) (\<lambda>condition_dist.
        bindE (dict_get condition_dist ''New'' (PInt 0)) (\<lambda>new_percentage.
        bindE (truediv new_percentage 100) (\<lambda>q. Inr (py_min2 q (Finite 1)))))
      else if platform = Platform_value GOOGLE then
        bindE (dict_get trend_data ''trend_summary'' (PDict [])) (\<lambda>trend_summary.
        bindE (dict_get trend_summary ''average_interest'' (PInt 0)) (\<lambda>avg_interest.
        bindE (truediv avg_interest 100) (\<lambda>q. Inr (py_min2 q (Finite 1)))))
      else Inr (Finite 0.5))"

text \<open>
  \<^verbatim>\<open>calculate_market_sentiment\<close>: the body, with \<^verbatim>\<open>except Exception: return 0.5\<close>
  around it.
\<close>

definition calculate_market_sentiment :: "pyval \<Rightarrow> string \<Rightarrow> py_error + pyfloat" where
  "calculate_market_sentiment trend_data platform =
     (case calculate_market_sentiment_body trend_data platform of
        Inl e \<Rightarrow> Inr (Finite 0.5)
      | Inr v \<Rightarrow> Inr v)"

section \<open>Source adapters (api_handlers.py)\<close>

text \<open>
  A \<^verbatim>\<open>for\<close> loop over a list whose body updates the local variables \<open>s\<close> and may
  raise: the first exception ends the loop.
\<close>

fun for_each :: "('a \<Rightarrow> 's \<Rightarrow> py_error + 's) \<Rightarrow> 'a list \<Rightarrow> 's \<Rightarrow> py_error + 's" where
  "for_each body [] s = Inr s"
| "for_each body (x # xs) s =
     (case body x s of Inl e \<Rightarrow> Inl e | Inr s' \<Rightarrow> for_each body xs s')"

text \<open>\<^verbatim>\<open>d[k] = v\<close> on a dictionary: an existing key keeps its place.\<close>

fun alist_set :: "(string \<times> pyval) list \<Rightarrow> string \<Rightarrow> pyval \<Rightarrow> (string \<times> pyval) list" where
  "alist_set [] k v = [(k, v)]"
| "alist_set ((k', v') # kvs) k v =
     (if k' = k then (k, v) # kvs else (k', v') # alist_set kvs k v)"

text \<open>
  The three marketplace adapters build the same two entries from their price list:
  \<^verbatim>\<open>"avg_price": sum(prices) / len(prices) if prices else 0\<close> and
  \<^verbatim>\<open>"price_range": {"min": min(prices) if prices else 0,
                   "max": max(prices) if prices else 0}\<close>.
  The literal \<^verbatim>\<open>0\<close> is an int, the other values are floats.
\<close>

definition avg_price :: "real list \<Rightarrow> py_error + pyval" where
  "avg_price prices =
     (if prices \<noteq> [] then
        bindE (py_div (py_sum prices) (real (length prices))) (\<lambda>q. Inr (PFloat q))
      else Inr (PInt 0))"

definition price_range :: "real list \<Rightarrow> py_error + pyval" where
  "price_range prices =
     bindE (if prices \<noteq> [] then bindE (py_min prices) (\<lambda>m. Inr (PFloat m)) else Inr (PInt 0))
       (\<lambda>lo.
     bindE (if prices \<noteq> [] then bindE (py_max prices) (\<lambda>m. Inr (PFloat m)) else Inr (PInt 0))
       (\<lambda>hi.
     Inr (PDict [(''min'', lo), (''max'', hi)])))"

subsection \<open>Amazon\<close>

text \<open>
  A search result as the adapter reads it. \<open>offers item = None\<close> is a falsy
  \<^verbatim>\<open>item.offers\<close>; \<open>Some ls\<close> gives \<^verbatim>\<open>l.price.amount\<close> for every \<^verbatim>\<open>l\<close> of
  \<^verbatim>\<open>item.offers.listings\<close>. \<open>rating item = None\<close> is a falsy \<^verbatim>\<open>item.rating\<close>.
\<close>

record amazon_rating =
  rating_count :: int
  rating_value :: real

record amazon_item =
  offers :: "real list option"
  rating :: "amazon_rating option"

type_synonym amazon_vars = "real list \<times> int \<times> real \<times> int"

text \<open>The loop body; the variables are prices, total_reviews, total_rating, product_count.\<close>

definition amazon_body :: "amazon_item \<Rightarrow> amazon_vars \<Rightarrow> py_error + amazon_vars" where
  "amazon_body item vars =
     (case vars of (prices, total_reviews, total_rating, product_count) \<Rightarrow>
        bindE (case offers item of
                 None \<Rightarrow> Inr prices
               | Some listings \<Rightarrow>
                   (case listings of
                      [] \<Rightarrow> Inl IndexError
                    | amount # _ \<Rightarrow> Inr (prices @ [amount])))
          (\<lambda>prices'.
             (case rating item of
                None \<Rightarrow> Inr (prices', total_reviews, total_rating, product_count + 1)
              | Some r \<Rightarrow>
                  Inr (prices', total_reviews + rating_count r,
                       total_rating + rating_value r, product_count + 1))))"

definition fetch_amazon_trends_body ::
    "(string \<Rightarrow> py_error + amazon_item list) \<Rightarrow> string \<Rightarrow> string \<Rightarrow> py_error + pyval" where
  "fetch_amazon_trends_body search_items keyword country =
     bindE (search_items keyword) (\<lambda>items.
     bindE (for_each amazon_body (take 20 items) ([], 0, 0, 0)) (\<lambda>vars.
       (case vars of (prices, total_reviews, total_rating, product_count) \<Rightarrow>
          bindE (avg_price prices) (\<lambda>ap.
          bindE (price_range prices) (\<lambda>pr.
          bindE (if product_count > 0
                 then bindE (py_div total_rating (real_of_int product_count))
                        (\<lambda>q. Inr (PFloat q))
                 else Inr (PInt 0)) (\<lambda>ar.
          Inr (PDict [(''avg_price'', ap),
                      (''price_range'', pr),
                      (''review_count'', PInt total_reviews),
                      (''avg_rating'', ar),
                      (''total_products'', PInt product_count)])))))))"

definition fetch_amazon_trends ::
    "(string \<Rightarrow> py_error + amazon_item list) \<Rightarrow> string \<Rightarrow> string \<Rightarrow> py_error + pyval" where
  "fetch_amazon_trends search_items keyword country =
     (case fetch_amazon_trends_body search_items keyword country of
        Inl e \<Rightarrow> Inl (Amazon_API_error e)
      | Inr d \<Rightarrow> Inr d)"

subsection \<open>eBay\<close>

text \<open>
  \<open>sellingStatus item = None\<close>: the item has no such attribute; otherwise the field
  holds what \<^verbatim>\<open>float(item.sellingStatus.currentPrice.value)\<close> gives, a number or
  the exception it raises. \<open>totalEntries\<close> holds what \<^verbatim>\<open>int(results.totalEntries)\<close>
  gives. \<open>sr_item r = None\<close>: the search result has no attribute \<^verbatim>\<open>item\<close>.
\<close>

record ebay_item =
  sellingStatus :: "(py_error + real) option"

record ebay_searchResult =
  totalEntries :: "py_error + int"
  sr_item :: "ebay_item list option"

definition ebay_body :: "ebay_item \<Rightarrow> real list \<Rightarrow> py_error + real list" where
  "ebay_body item prices =
     (case sellingStatus item of
        None \<Rightarrow> Inr prices
      | Some v \<Rightarrow> bindE v (\<lambda>price. Inr (prices @ [price])))"

definition fetch_ebay_trends_body ::
    "(string \<Rightarrow> pyval \<Rightarrow> py_error + ebay_searchResult) \<Rightarrow> string \<Rightarrow> string \<Rightarrow>
     py_error + pyval" where
  "fetch_ebay_trends_body execute keyword country =
     (let search_request0 =
            [(''keywords'', PStr keyword),
             (''paginationInput'', PDict [(''entriesPerPage'', PInt 100)]),
             (''sortOrder'', PStr ''BestMatch'')];
          search_request =
            (if country \<noteq> []
             then alist_set search_request0 ''itemFilter''
                    (PList [PDict [(''name'', PStr ''LocatedIn''), (''value'', PStr country)]])
             else search_request0)
      in
        bindE (execute ''findItemsAdvanced'' (PDict search_request)) (\<lambda>results.
        bindE (totalEntries results) (\<lambda>active_listings.
        let completed_request =
              alist_set search_request ''itemFilter''
                (PList [PDict [(''name'', PStr ''SoldItemsOnly''), (''value'', PStr ''true'')]])
        in
        bindE (execute ''findCompletedItems'' (PDict completed_request)) (\<lambda>completed_results.
        bindE (case sr_item results of
                 None \<Rightarrow> Inl AttributeError
               | Some items \<Rightarrow> for_each ebay_body items []) (\<lambda>prices.
        bindE (avg_price prices) (\<lambda>ap.
        bindE (price_range prices) (\<lambda>pr.
        Inr (PDict [(''active_listings'', PInt active_listings),
                    (''sold_last_month'',
                       (case sr_item completed_results of
                          None \<Rightarrow> PInt 0
                        | Some sold \<Rightarrow> PInt (int (length sold)))),
                    (''avg_price'', ap),
                    (''price_range'', pr),
                    (''total_results'',
                       (case sr_item results of
                          None \<Rightarrow> PInt 0
                        | Some items \<Rightarrow> PInt (int (length items))))]))))))))"

definition fetch_ebay_trends ::
    "(string \<Rightarrow> pyval \<Rightarrow> py_error + ebay_searchResult) \<Rightarrow> string \<Rightarrow> string \<Rightarrow>
     py_error + pyval" where
  "fetch_ebay_trends execute keyword country =
     (case fetch_ebay_trends_body execute keyword country of
        Inl e \<Rightarrow> Inl (eBay_API_error e)
      | Inr d \<Rightarrow> Inr d)"

subsection \<open>Etsy\<close>

text \<open>
  A listing as the adapter reads it: \<open>price\<close> holds what
  \<^verbatim>\<open>float(listing['price'])\<close> gives, a number or the exception raised (a
  \<^verbatim>\<open>KeyError\<close> when the key is missing); \<open>is_handmade\<close> and \<open>is_vintage\<close> are the
  truth values of \<^verbatim>\<open>listing.get(...)\<close>; \<open>Shop\<close> is the entry under \<^verbatim>\<open>'Shop'\<close>,
  \<open>None\<close> when the key is missing.
\<close>

record etsy_listing =
  price :: "py_error + real"
  is_handmade :: bool
  is_vintage :: bool
  Shop :: "pyval option"

type_synonym etsy_vars = "real list \<times> int \<times> int \<times> int \<times> int"

text \<open>
  The loop body; the variables are prices, handmade_count, vintage_count,
  shop_locations['domestic'] and shop_locations['international'].
\<close>

definition etsy_body :: "string \<Rightarrow> etsy_listing \<Rightarrow> etsy_vars \<Rightarrow> py_error + etsy_vars" where
  "etsy_body country listing vars =
     (case vars of (prices, handmade_count, vintage_count, domestic, international) \<Rightarrow>
        bindE (price listing) (\<lambda>p.
        let prices' = prices @ [p];
            handmade_count' = (if is_handmade listing then handmade_count + 1 else handmade_count);
            vintage_count' = (if is_vintage listing then vintage_count + 1 else vintage_count);
            shop = (case Shop listing of None \<Rightarrow> PDict [] | Some s \<Rightarrow> s)
        in
        bindE (dict_get shop ''country_id'' PNone) (\<lambda>country_id.
          if country_id = PStr country
          then Inr (prices', handmade_count', vintage_count', domestic + 1, international)
          else Inr (prices', handmade_count', vintage_count', domestic, international + 1))))"

definition fetch_etsy_trends_body ::
    "(string \<Rightarrow> string option \<Rightarrow> py_error + etsy_listing list) \<Rightarrow> string \<Rightarrow> string \<Rightarrow>
     py_error + pyval" where
  "fetch_etsy_trends_body findAllListings keyword country =
     bindE (findAllListings keyword (if country \<noteq> [] then Some country else None))
       (\<lambda>listings.
     bindE (for_each (etsy_body country) listings ([], 0, 0, 0, 0)) (\<lambda>vars.
       (case vars of (prices, handmade_count, vintage_count, domestic, international) \<Rightarrow>
          let total_listings = int (length listings) in
          bindE (avg_price prices) (\<lambda>ap.
          bindE (price_range prices) (\<lambda>pr.
          bindE (if total_listings > 0
                 then bindE (py_div (real_of_int domestic) (real_of_int total_listings))
                        (\<lambda>q. Inr (PFloat q))
                 else Inr (PInt 0)) (\<lambda>dom_fraction.
          bindE (if total_listings > 0
                 then bindE (py_div (real_of_int international) (real_of_int total_listings))
                        (\<lambda>q. Inr (PFloat q))
                 else Inr (PInt 0)) (\<lambda>int_fraction.
          Inr (PDict [(''total_listings'', PInt total_listings),
                      (''avg_price'', ap),
                      (''price_range'', pr),
                      (''handmade_count'', PInt handmade_count),
                      (''vintage_count'', PInt vintage_count),
                      (''shop_location_distribution'',
                         PDict [(''domestic'', dom_fraction),
                                (''international'', int_fraction)])]))))))))"

definition fetch_etsy_trends ::
    "(string \<Rightarrow> string option \<Rightarrow> py_error + etsy_listing list) \<Rightarrow> string \<Rightarrow> string \<Rightarrow>
     py_error + pyval" where
  "fetch_etsy_trends findAllListings keyword country =
     (case fetch_etsy_trends_body findAllListings keyword country of
        Inl e \<Rightarrow> Inl (Etsy_API_error e)
      | Inr d \<Rightarrow> Inr d)"

subsection \<open>Google Trends\<close>

text \<open>\<^verbatim>\<open>str.lower()\<close> on the ASCII letters.\<close>

definition lower_char :: "char \<Rightarrow> char" where
  "lower_char c =
     (let n = (of_char c :: nat) in if 65 \<le> n \<and> n \<le> 90 then char_of (n + 32) else c)"

definition country_code :: "string \<Rightarrow> string" where
  "country_code country =
     (case map_of [(''united states'', ''US''),
                   (''united kingdom'', ''GB''),
                   (''canada'', ''CA''),
                   (''australia'', ''AU''),
                   (''germany'', ''DE'')] (map lower_char country) of
        None \<Rightarrow> ''US''
      | Some c \<Rightarrow> c)"

text \<open>
  The pytrends client, after \<^verbatim>\<open>build_payload\<close> with a keyword, a timeframe and a
  region. \<open>interest_over_time\<close> gives the rows of the data frame, each the formatted
  date and the value in the keyword's column; no row is an empty frame. The two
  \<open>related_*\<close> calls give the entries \<^verbatim>\<open>[keyword]['top']\<close> and
  \<^verbatim>\<open>[keyword]['rising']\<close>: \<open>None\<close> for Python's \<^verbatim>\<open>None\<close>, otherwise the value of
  \<^verbatim>\<open>.to_dict('records')\<close>.
\<close>

record pytrends =
  build_payload :: "string \<Rightarrow> string option \<Rightarrow> string \<Rightarrow> py_error + unit"
  interest_over_time ::
    "string \<Rightarrow> string option \<Rightarrow> string \<Rightarrow> py_error + (string \<times> int) list"
  related_queries ::
    "string \<Rightarrow> string option \<Rightarrow> string \<Rightarrow> py_error + (pyval option \<times> pyval option)"
  related_topics ::
    "string \<Rightarrow> string option \<Rightarrow> string \<Rightarrow> py_error + (pyval option \<times> pyval option)"

definition records_or_empty :: "pyval option \<Rightarrow> pyval" where
  "records_or_empty df = (case df of None \<Rightarrow> PList [] | Some recs \<Rightarrow> recs)"

definition fetch_google_trends_body ::
    "pytrends \<Rightarrow> string \<Rightarrow> string \<Rightarrow> string option \<Rightarrow> py_error + pyval" where
  "fetch_google_trends_body pt keyword country timeframe =
     (let geo = country_code country in
        bindE (build_payload pt keyword timeframe geo) (\<lambda>_.
        bindE (interest_over_time pt keyword timeframe geo) (\<lambda>interest_data.
        bindE (related_queries pt keyword timeframe geo) (\<lambda>rq.
        bindE (related_topics pt keyword timeframe geo) (\<lambda>rt.
        Inr (PDict [(''interest_over_time'',
                       (if interest_data \<noteq> []
                        then PDict [(''dates'', PList (map (\<lambda>row. PStr (fst row)) interest_data)),
                                    (''values'', PList (map (\<lambda>row. PInt (snd row)) interest_data))]
                        else PDict [])),
                    (''related_queries'',
                       PDict [(''top'', records_or_empty (fst rq)),
                              (''rising'', records_or_empty (snd rq))]),
                    (''related_topics'',
                       PDict [(''top'', records_or_empty (fst rt)),
                              (''rising'', records_or_empty (snd rt))])]))))))"

definition fetch_google_trends ::
    "pytrends \<Rightarrow> string \<Rightarrow> string \<Rightarrow> string option \<Rightarrow> py_error + pyval" where
  "fetch_google_trends pt keyword country timeframe =
     (case fetch_google_trends_body pt keyword country timeframe of
        Inl e \<Rightarrow> Inl (Google_Trends_API_error e)
      | Inr d \<Rightarrow> Inr d)"

section \<open>The endpoint (main.py)\<close>

text \<open>\<^verbatim>\<open>TimeFrame\<close> is a string enumeration of seven members.\<close>

datatype TimeFrame =
    LAST_HOUR
  | LAST_DAY
  | LAST_WEEK
  | LAST_MONTH
  | LAST_3_MONTHS
  | LAST_12_MONTHS
  | LAST_5_YEARS

fun TimeFrame_value :: "TimeFrame \<Rightarrow> string" where
  "TimeFrame_value LAST_HOUR = ''now 1-H''"
| "TimeFrame_value LAST_DAY = ''now 1-d''"
| "TimeFrame_value LAST_WEEK = ''now 7-d''"
| "TimeFrame_value LAST_MONTH = ''today 1-m''"
| "TimeFrame_value LAST_3_MONTHS = ''today 3-m''"
| "TimeFrame_value LAST_12_MONTHS = ''today 12-m''"
| "TimeFrame_value LAST_5_YEARS = ''today 5-y''"

definition TimeFrame_of :: "string \<Rightarrow> TimeFrame option" where
  "TimeFrame_of v =
     map_of (map (\<lambda>m. (TimeFrame_value m, m))
       [LAST_HOUR, LAST_DAY, LAST_WEEK, LAST_MONTH, LAST_3_MONTHS, LAST_12_MONTHS, LAST_5_YEARS]) v"

text \<open>
  The request model. The field \<^verbatim>\<open>platform\<close> is a \<^verbatim>\<open>Platform\<close>, the field
  \<^verbatim>\<open>timeframe\<close> an \<^verbatim>\<open>Optional[TimeFrame]\<close>.
\<close>

record TrendRequest =
  rq_platform :: Platform
  rq_country :: string
  rq_keyword :: string
  rq_timeframe :: "TimeFrame option"

text \<open>
  The body of a \<^verbatim>\<open>POST /trends/\<close> whose fields are strings. The field
  \<^verbatim>\<open>timeframe\<close> may be left out (\<open>None\<close>) or be \<^verbatim>\<open>null\<close> (\<open>Some None\<close>).
\<close>

record request_body =
  body_platform :: string
  body_country :: string
  body_keyword :: string
  body_timeframe :: "string option option"

text \<open>
  The validation of the body against \<^verbatim>\<open>TrendRequest\<close>: \<^verbatim>\<open>platform\<close> must be the
  value of a member of \<^verbatim>\<open>Platform\<close>, \<^verbatim>\<open>country\<close> has 2 to 56 characters,
  \<^verbatim>\<open>keyword\<close> has 1 to 100 characters, \<^verbatim>\<open>timeframe\<close> is the value of a member of
  \<^verbatim>\<open>TimeFrame\<close>, or \<^verbatim>\<open>null\<close>, or left out, which gives the default
  \<^verbatim>\<open>TimeFrame.LAST_3_MONTHS\<close>. The issues of all fields are reported together, in
  the order of the fields.
\<close>

definition check_enum ::
    "string \<Rightarrow> (string \<Rightarrow> 'a option) \<Rightarrow> string \<Rightarrow> validation_issue + 'a" where
  "check_enum field member_of v =
     (case member_of v of None \<Rightarrow> Inl (Enum_error field v) | Some m \<Rightarrow> Inr m)"

definition check_length ::
    "string \<Rightarrow> nat \<Rightarrow> nat \<Rightarrow> string \<Rightarrow> validation_issue + string" where
  "check_length field min_length max_length v =
     (if length v < min_length then Inl (Min_length_error field min_length)
      else if max_length < length v then Inl (Max_length_error field max_length)
      else Inr v)"

definition issues :: "validation_issue + 'a \<Rightarrow> validation_issue list" where
  "issues checked = (case checked of Inl i \<Rightarrow> [i] | Inr v \<Rightarrow> [])"

definition validate_TrendRequest :: "request_body \<Rightarrow> py_error + TrendRequest" where
  "validate_TrendRequest body =
     (let platform = check_enum ''platform'' Platform_of (body_platform body);
          country = check_length ''country'' 2 56 (body_country body);
          keyword = check_length ''keyword'' 1 100 (body_keyword body);
          timeframe =
            (case body_timeframe body of
               None \<Rightarrow> Inr (Some LAST_3_MONTHS)
             | Some None \<Rightarrow> Inr None
             | Some (Some v) \<Rightarrow>
                 (case check_enum ''timeframe'' TimeFrame_of v of
                    Inl i \<Rightarrow> Inl i
                  | Inr m \<Rightarrow> Inr (Some m)))
      in case (platform, country, keyword, timeframe) of
           (Inr p, Inr c, Inr k, Inr t) \<Rightarrow>
             Inr \<lparr>rq_platform = p, rq_country = c, rq_keyword = k, rq_timeframe = t\<rparr>
         | _ \<Rightarrow>
             Inl (RequestValidationError
                    (issues platform @ issues country @ issues keyword @ issues timeframe)))"

record PriceRange =
  pr_min :: real
  pr_max :: real

record TrendData =
  rs_platform :: string
  rs_country :: string
  rs_keyword :: string
  rs_timestamp :: string
  rs_trend_data :: pyval
  rs_price_range :: "PriceRange option"
  rs_search_volume :: "int option"
  rs_market_sentiment :: "pyfloat option"
  rs_error :: "string option"

text \<open>
  The clients that \<^verbatim>\<open>EcommerceAPIHandler\<close> holds: what each remote source answers.
\<close>

record clients =
  amazon_search_items :: "string \<Rightarrow> py_error + amazon_item list"
  ebay_execute :: "string \<Rightarrow> pyval \<Rightarrow> py_error + ebay_searchResult"
  etsy_findAllListings :: "string \<Rightarrow> string option \<Rightarrow> py_error + etsy_listing list"
  google_pytrends :: pytrends

text \<open>
  The four adapter methods. A method called with the wrong number of arguments raises
  \<^verbatim>\<open>TypeError\<close>.
\<close>

datatype adapter =
    Fetch_amazon_trends
  | Fetch_ebay_trends
  | Fetch_etsy_trends
  | Fetch_google_trends

fun call2 :: "clients \<Rightarrow> adapter \<Rightarrow> string \<Rightarrow> string \<Rightarrow> py_error + pyval" where
  "call2 cl Fetch_amazon_trends keyword country =
     fetch_amazon_trends (amazon_search_items cl) keyword country"
| "call2 cl Fetch_ebay_trends keyword country =
     fetch_ebay_trends (ebay_execute cl) keyword country"
| "call2 cl Fetch_etsy_trends keyword country =
     fetch_etsy_trends (etsy_findAllListings cl) keyword country"
| "call2 cl Fetch_google_trends keyword country = Inl TypeError"

fun call3 ::
    "clients \<Rightarrow> adapter \<Rightarrow> string \<Rightarrow> string \<Rightarrow> string option \<Rightarrow> py_error + pyval" where
  "call3 cl Fetch_google_trends keyword country timeframe =
     fetch_google_trends (google_pytrends cl) keyword country timeframe"
| "call3 cl _ keyword country timeframe = Inl TypeError"

text \<open>The dispatch table of \<^verbatim>\<open>get_trends\<close>.\<close>

definition handlers :: "(Platform \<times> adapter) list" where
  "handlers =
     [(AMAZON, Fetch_amazon_trends), (EBAY, Fetch_ebay_trends), (GOOGLE, Fetch_google_trends)]"

text \<open>
  What pydantic makes of a value given for a \<^verbatim>\<open>float\<close> field and for an
  \<^verbatim>\<open>Optional[int]\<close> field. The adapters put only ints and finite floats there;
  booleans, numeric strings and the floats that are not finite, which pydantic would
  accept too, are rejected here like every other value.
\<close>

fun as_float :: "pyval \<Rightarrow> py_error + real" where
  "as_float (PInt i) = Inr (real_of_int i)"
| "as_float (PFloat r) = Inr r"
| "as_float _ = Inl ValidationError"

fun as_optional_int :: "pyval \<Rightarrow> py_error + int option" where
  "as_optional_int PNone = Inr None"
| "as_optional_int (PInt i) = Inr (Some i)"
| "as_optional_int _ = Inl ValidationError"

text \<open>
  The body of the \<^verbatim>\<open>try\<close> block of \<^verbatim>\<open>get_trends\<close>. The first component of the
  result lists the adapter methods that were invoked; \<open>now\<close> is
  \<^verbatim>\<open>datetime.now().isoformat()\<close>.
\<close>

definition get_trends_body ::
    "clients \<Rightarrow> string \<Rightarrow> TrendRequest \<Rightarrow> adapter list \<times> (py_error + TrendData)" where
  "get_trends_body cl now request =
     (case map_of handlers (rq_platform request) of
        None \<Rightarrow>
          ([], Inl (HTTPException 400
                      (Unsupported_platform (Platform_value (rq_platform request)))))
      | Some handler \<Rightarrow>
          ([handler],
           bindE (if rq_platform request = GOOGLE
                  then call3 cl handler (rq_keyword request) (rq_country request)
                         (map_option TimeFrame_value (rq_timeframe request))
                  else call2 cl handler (rq_keyword request) (rq_country request))
             (\<lambda>trend_data.
           bindE (calculate_market_sentiment trend_data (Platform_value (rq_platform request)))
             (\<lambda>market_sentiment.
           bindE (if dict_contains trend_data ''price_range''
                  then
                    bindE (dict_get trend_data ''price_range'' (PDict [])) (\<lambda>r1.
                    bindE (dict_get r1 ''min'' (PInt 0)) (\<lambda>lo.
                    bindE (dict_get trend_data ''price_range'' (PDict [])) (\<lambda>r2.
                    bindE (dict_get r2 ''max'' (PInt 0)) (\<lambda>hi.
                    bindE (as_float lo) (\<lambda>lo'.
                    bindE (as_float hi) (\<lambda>hi'.
                    Inr (Some \<lparr>pr_min = lo', pr_max = hi'\<rparr>)))))))
                  else Inr None)
             (\<lambda>pr.
           bindE (dict_get trend_data ''total_products'' (PInt 0)) (\<lambda>total_products.
           bindE (as_optional_int total_products) (\<lambda>sv.
           Inr \<lparr>rs_platform = Platform_value (rq_platform request),
                rs_country = rq_country request,
                rs_keyword = rq_keyword request,
                rs_timestamp = now,
                rs_trend_data = trend_data,
                rs_price_range = pr,
                rs_search_volume = sv,
                rs_market_sentiment = Some market_sentiment,
                rs_error = None\<rparr>)))))))"

text \<open>
  \<^verbatim>\<open>get_trends\<close>: every exception of the body, the 400 of the dispatch included,
  is caught by \<^verbatim>\<open>except Exception\<close> and raised again as a 500.
\<close>

definition get_trends ::
    "clients \<Rightarrow> string \<Rightarrow> TrendRequest \<Rightarrow> adapter list \<times> (py_error + TrendData)" where
  "get_trends cl now request =
     (case get_trends_body cl now request of
        (calls, Inl e) \<Rightarrow> (calls, Inl (HTTPException 500 (Error_processing_request e)))
      | (calls, Inr response) \<Rightarrow> (calls, Inr response))"

text \<open>
  The route \<^verbatim>\<open>@app.post("/trends/")\<close>. The parameter \<^verbatim>\<open>request: TrendRequest\<close> of
  \<^verbatim>\<open>get_trends\<close> is built from the body of the request; when the body does not
  validate, \<^verbatim>\<open>get_trends\<close> is not called and the issues are the answer (with the
  status 422).
\<close>

definition post_trends ::
    "clients \<Rightarrow> string \<Rightarrow> request_body \<Rightarrow> adapter list \<times> (py_error + TrendData)" where
  "post_trends cl now body =
     (case validate_TrendRequest body of
        Inl e \<Rightarrow> ([], Inl e)
      | Inr request \<Rightarrow> get_trends cl now request)"

section \<open>Observations used in the statements\<close>

text \<open>
  The value that the rule of the platform divides: the entry \<^verbatim>\<open>avg_rating\<close> of
  \<^verbatim>\<open>review_metrics\<close> for Amazon, \<^verbatim>\<open>New\<close> of \<^verbatim>\<open>condition_distribution\<close> for eBay,
  \<^verbatim>\<open>average_interest\<close> of \<^verbatim>\<open>trend_summary\<close> for Google, each with the defaults of
  the code; \<open>None\<close> when the platform has no rule or a lookup raises.
\<close>

definition scored_value :: "pyval \<Rightarrow> string \<Rightarrow> pyval option" where
  "scored_value trend_data platform =
     (let look = (\<lambda>outer inner.
            case dict_get trend_data outer (PDict []) of
              Inl e \<Rightarrow> None
            | Inr m \<Rightarrow> (case dict_get m inner (PInt 0) of Inl e \<Rightarrow> None | Inr x \<Rightarrow> Some x))
      in if platform = Platform_value AMAZON then look ''review_metrics'' ''avg_rating''
         else if platform = Platform_value EBAY then look ''condition_distribution'' ''New''
         else if platform = Platform_value GOOGLE then look ''trend_summary'' ''average_interest''
         else None)"

text \<open>A negative number; and: the value read is missing, or neither negative nor NaN.\<close>

fun negative :: "pyval \<Rightarrow> bool" where
  "negative (PInt i) = (i < 0)"
| "negative (PFloat r) = (r < 0)"
| "negative PNegInf = True"
| "negative _ = False"

definition no_negative_score :: "pyval \<Rightarrow> string \<Rightarrow> bool" where
  "no_negative_score trend_data platform =
     (case scored_value trend_data platform of
        None \<Rightarrow> True
      | Some x \<Rightarrow> \<not> negative x \<and> x \<noteq> PNaN)"

text \<open>
  A source value is registered when it is equal to a key of the dispatch table; the keys
  are members of \<^verbatim>\<open>Platform\<close>, which are equal to their values.
\<close>

definition registered :: "string \<Rightarrow> bool" where
  "registered source = (source \<in> set (map (\<lambda>(p, h). Platform_value p) handlers))"


text \<open>The response of a request, when there is one.\<close>

definition response_of :: "adapter list \<times> (py_error + TrendData) \<Rightarrow> TrendData option" where
  "response_of out = (case snd out of Inl e \<Rightarrow> None | Inr r \<Rightarrow> Some r)"

section \<open>Concrete sources\<close>

text \<open>
  Three search results with prices 10, 20 and 30, two of them rated 4 and 5; an eBay
  search that reports 500 entries and returns two items at 50 and 70; three Etsy
  listings; a Google Trends series of two points.
\<close>

definition scenario_items :: "amazon_item list" where
  "scenario_items =
     [\<lparr>offers = Some [10], rating = Some \<lparr>rating_count = 120, rating_value = 4\<rparr>\<rparr>,
      \<lparr>offers = Some [20], rating = Some \<lparr>rating_count = 80, rating_value = 5\<rparr>\<rparr>,
      \<lparr>offers = Some [30], rating = None\<rparr>]"

definition scenario_search :: ebay_searchResult where
  "scenario_search =
     \<lparr>totalEntries = Inr 500,
      sr_item = Some [\<lparr>sellingStatus = Some (Inr 50)\<rparr>, \<lparr>sellingStatus = Some (Inr 70)\<rparr>]\<rparr>"

definition scenario_listings :: "etsy_listing list" where
  "scenario_listings =
     [\<lparr>price = Inr 12, is_handmade = True, is_vintage = False,
       Shop = Some (PDict [(''country_id'', PStr ''Canada'')])\<rparr>,
      \<lparr>price = Inr 30, is_handmade = False, is_vintage = True,
       Shop = Some (PDict [(''country_id'', PInt 79)])\<rparr>,
      \<lparr>price = Inr 18, is_handmade = True, is_vintage = False, Shop = None\<rparr>]"

definition scenario_pytrends :: pytrends where
  "scenario_pytrends =
     \<lparr>build_payload = (\<lambda>kw tf geo. Inr ()),
      interest_over_time = (\<lambda>kw tf geo. Inr [(''2024-01-07'', 40), (''2024-01-14'', 60)]),
      related_queries = (\<lambda>kw tf geo. Inr (None, None)),
      related_topics = (\<lambda>kw tf geo. Inr (None, None))\<rparr>"

definition scenario_clients :: clients where
  "scenario_clients =
     \<lparr>amazon_search_items = (\<lambda>kw. Inr scenario_items),
      ebay_execute = (\<lambda>verb req. Inr scenario_search),
      etsy_findAllListings = (\<lambda>kw c. Inr scenario_listings),
      google_pytrends = scenario_pytrends\<rparr>"

text \<open>Sources that answer, and find nothing.\<close>

definition empty_clients :: clients where
  "empty_clients =
     \<lparr>amazon_search_items = (\<lambda>kw. Inr []),
      ebay_execute = (\<lambda>verb req. Inr \<lparr>totalEntries = Inr 0, sr_item = Some []\<rparr>),
      etsy_findAllListings = (\<lambda>kw c. Inr []),
      google_pytrends = scenario_pytrends\<rparr>"

definition request_for :: "Platform \<Rightarrow> string \<Rightarrow> string \<Rightarrow> TrendRequest" where
  "request_for p c k =
     \<lparr>rq_platform = p, rq_country = c, rq_keyword = k, rq_timeframe = Some LAST_3_MONTHS\<rparr>"

text \<open>The body of a request for a source, with the default time frame.\<close>

definition body_for :: "string \<Rightarrow> string \<Rightarrow> string \<Rightarrow> request_body" where
  "body_for p c k =
     \<lparr>body_platform = p, body_country = c, body_keyword = k, body_timeframe = None\<rparr>"

section \<open>Price statistics\<close>

text \<open>
  The minimum and the maximum that an adapter reports are elements of its price list,
  found by comparing, and no rounding takes part in them. The average is a sum and a
  quotient of floats, which the program rounds: the lemma \<open>avg_price_eq\<close> describes the
  model, where the average is the mean of the values of the prices, and the program
  agrees with it where the sum and the quotient are exact in doubles, as for the samples
  of the concrete sources below. That the average of the program is the mean of every
  sample is not stated in this development.
\<close>

lemma fold_min_eq: "fold (\<lambda>y m. if y < m then y else m) xs (x::real) = Min (insert x (set xs))"
proof (induction xs arbitrary: x)
  case Nil
  then show ?case by simp
next
  case (Cons a xs)
  have "Min (insert (if a < x then a else x) (set xs)) = Min (insert x (insert a (set xs)))"
    by (cases "set xs = {}") (auto simp: min_def)
  then show ?case using Cons.IH by simp
qed

lemma fold_max_eq: "fold (\<lambda>y m. if m < y then y else m) xs (x::real) = Max (insert x (set xs))"
proof (induction xs arbitrary: x)
  case Nil
  then show ?case by simp
next
  case (Cons a xs)
  have "Max (insert (if x < a then a else x) (set xs)) = Max (insert x (insert a (set xs)))"
    by (cases "set xs = {}") (auto simp: max_def)
  then show ?case using Cons.IH by simp
qed

lemma py_min_eq: "P \<noteq> [] \<Longrightarrow> py_min P = Inr (Min (set P))"
  by (cases P) (simp_all add: fold_min_eq)

lemma py_max_eq: "P \<noteq> [] \<Longrightarrow> py_max P = Inr (Max (set P))"
  by (cases P) (simp_all add: fold_max_eq)

lemma foldl_add_acc: "foldl (+) (a::real) xs = a + sum_list xs"
  by (induction xs arbitrary: a) simp_all

lemma py_sum_eq: "py_sum xs = sum_list xs"
  by (simp add: py_sum_def foldl_add_acc)

lemma avg_price_eq:
  "avg_price P = Inr (if P = [] then PInt 0 else PFloat (sum_list P / real (length P)))"
  by (simp add: avg_price_def py_div_def bindE_def py_sum_eq)

lemma price_range_eq:
  "price_range P =
     Inr (PDict [(''min'', if P = [] then PInt 0 else PFloat (Min (set P))),
                 (''max'', if P = [] then PInt 0 else PFloat (Max (set P)))])"
  by (simp add: price_range_def bindE_def py_min_eq py_max_eq)

section \<open>Sentiment scoring\<close>

lemma int_small: "\<bar>i\<bar> \<le> 5 \<Longrightarrow> \<not> int_too_large i"
proof -
  have "(2::int) ^ 970 * 1 \<le> 2 ^ 970 * (2 ^ 54 - 1)"
    by (rule mult_left_mono) simp_all
  also have "\<dots> = 2 ^ 1024 - 2 ^ 970"
    by (simp add: right_diff_distrib power_add [symmetric])
  finally have a: "(2::int) ^ 970 \<le> 2 ^ 1024 - 2 ^ 970" by simp
  have "(5::int) < 2 ^ 3" by simp
  also have "(2::int) ^ 3 \<le> 2 ^ 970" by (rule power_increasing) simp_all
  finally have "(5::int) < 2 ^ 1024 - 2 ^ 970" using a by linarith
  then show "\<bar>i\<bar> \<le> 5 \<Longrightarrow> \<not> int_too_large i"
    unfolding int_too_large_def by linarith
qed

lemma int_zero: "\<not> int_too_large 0"
  by (rule int_small) simp

lemma sentiment_cases:
  "calculate_market_sentiment td p =
     Inr (case calculate_market_sentiment_body td p of Inl e \<Rightarrow> Finite 0.5 | Inr v \<Rightarrow> v)"
  by (simp add: calculate_market_sentiment_def split: sum.splits)

lemma truediv_cases:
  assumes "0 < d"
  shows "truediv x d =
           (case x of
              PInt i \<Rightarrow> if int_too_large i then Inl OverflowError
                        else Inr (Finite (real_of_int i / d))
            | PBool b \<Rightarrow> Inr (Finite ((if b then 1 else 0) / d))
            | PFloat r \<Rightarrow> Inr (Finite (r / d))
            | PNaN \<Rightarrow> Inr NaN
            | PInf \<Rightarrow> Inr PosInf
            | PNegInf \<Rightarrow> Inr NegInf
            | _ \<Rightarrow> Inl TypeError)"
  using assms by (cases x) simp_all

lemma clamp_cases:
  "py_min2 q (Finite 1) =
     (case q of Finite r \<Rightarrow> Finite (if 1 < r then 1 else r) | PosInf \<Rightarrow> Finite 1 | _ \<Rightarrow> q)"
  by (cases q) (simp_all add: py_min2_def)

text \<open>
  What a rule returns for the value \<open>x\<close> that it reads: \<^verbatim>\<open>min(x / d, 1.0)\<close> for a
  positive \<open>d\<close>, and 0.5 when the division raises.
\<close>

lemma rule_bounds:
  assumes "0 < d"
    and "(case bindE (truediv x d) (\<lambda>q. Inr (py_min2 q (Finite 1))) of
            Inl e \<Rightarrow> Finite 0.5 | Inr v \<Rightarrow> v) = v"
  shows "(v = NaN \<or> float_le v (Finite 1)) \<and> (v = NaN) = (x = PNaN) \<and>
         (\<not> negative x \<and> x \<noteq> PNaN \<longrightarrow> float_le (Finite 0) v \<and> float_le v (Finite 1))"
  using assms
  by (cases x)
     (auto simp: truediv_cases clamp_cases bindE_def split: if_splits)

text \<open>
  C3, as the code has it. The rules clamp from above only, and \<^verbatim>\<open>min(x, 1.0)\<close> keeps
  a first argument that is NaN: for every trend-data value and every platform the
  sentiment is at most 1 or it is NaN; it is NaN exactly when the number that the rule
  of the platform reads is NaN; and it is in the interval from 0 to 1 when that number
  is missing, or is neither negative nor NaN.
\<close>

theorem sentiment_bounds:
  assumes "calculate_market_sentiment td p = Inr v"
  shows "(v = NaN \<or> float_le v (Finite 1)) \<and>
         (v = NaN) = (scored_value td p = Some PNaN) \<and>
         (no_negative_score td p \<longrightarrow> float_le (Finite 0) v \<and> float_le v (Finite 1))"
proof -
  consider (amazon) "p = Platform_value AMAZON"
    | (ebay) "p \<noteq> Platform_value AMAZON" "p = Platform_value EBAY"
    | (google) "p \<noteq> Platform_value AMAZON" "p \<noteq> Platform_value EBAY" "p = Platform_value GOOGLE"
    | (other) "p \<noteq> Platform_value AMAZON" "p \<noteq> Platform_value EBAY" "p \<noteq> Platform_value GOOGLE"
    by blast
  then show ?thesis
  proof cases
    case amazon
    show ?thesis
    proof (cases "scored_value td p")
      case None
      with amazon assms show ?thesis
        by (auto simp: sentiment_cases calculate_market_sentiment_body_def scored_value_def
              no_negative_score_def bindE_def split: sum.splits)
    next
      case (Some x)
      with amazon assms have
        "(case bindE (truediv x 5) (\<lambda>q. Inr (py_min2 q (Finite 1))) of
            Inl e \<Rightarrow> Finite 0.5 | Inr v \<Rightarrow> v) = v"
        by (auto simp: sentiment_cases calculate_market_sentiment_body_def scored_value_def
              bindE_def split: sum.splits)
      from rule_bounds [OF _ this] Some show ?thesis
        by (auto simp: no_negative_score_def)
    qed
  next
    case ebay
    show ?thesis
    proof (cases "scored_value td p")
      case None
      with ebay assms show ?thesis
        by (auto simp: sentiment_cases calculate_market_sentiment_body_def scored_value_def
              no_negative_score_def bindE_def split: sum.splits)
    next
      case (Some x)
      with ebay assms have
        "(case bindE (truediv x 100) (\<lambda>q. Inr (py_min2 q (Finite 1))) of
            Inl e \<Rightarrow> Finite 0.5 | Inr v \<Rightarrow> v) = v"
        by (auto simp: sentiment_cases calculate_market_sentiment_body_def scored_value_def
              bindE_def split: sum.splits)
      from rule_bounds [OF _ this] Some show ?thesis
        by (auto simp: no_negative_score_def)
    qed
  next
    case google
    show ?thesis
    proof (cases "scored_value td p")
      case None
      with google assms show ?thesis
        by (auto simp: sentiment_cases calculate_market_sentiment_body_def scored_value_def
              no_negative_score_def bindE_def split: sum.splits)
    next
      case (Some x)
      with google assms have
        "(case bindE (truediv x 100) (\<lambda>q. Inr (py_min2 q (Finite 1))) of
            Inl e \<Rightarrow> Finite 0.5 | Inr v \<Rightarrow> v) = v"
        by (auto simp: sentiment_cases calculate_market_sentiment_body_def scored_value_def
              bindE_def split: sum.splits)
      from rule_bounds [OF _ this] Some show ?thesis
        by (auto simp: no_negative_score_def)
    qed
  next
    case other
    with assms show ?thesis
      by (auto simp: sentiment_cases calculate_market_sentiment_body_def scored_value_def
            no_negative_score_def)
  qed
qed

theorem sentiment_bounds_witness:
  "calculate_market_sentiment (PDict [(''review_metrics'', PDict [(''avg_rating'', PFloat 2.5)])])
     (Platform_value AMAZON) = Inr (Finite 0.5) \<and>
   no_negative_score (PDict [(''review_metrics'', PDict [(''avg_rating'', PFloat 2.5)])])
     (Platform_value AMAZON) \<and>
   float_le (Finite 0) (Finite 0.5) \<and> float_le (Finite 0.5) (Finite 1)"
proof -
  have e: "calculate_market_sentiment
             (PDict [(''review_metrics'', PDict [(''avg_rating'', PFloat 2.5)])])
             (Platform_value AMAZON) = Inr (Finite 0.5)"
    by (simp add: sentiment_cases calculate_market_sentiment_body_def bindE_def py_min2_def)
  have n: "no_negative_score
             (PDict [(''review_metrics'', PDict [(''avg_rating'', PFloat 2.5)])])
             (Platform_value AMAZON)"
    by (simp add: no_negative_score_def scored_value_def)
  from sentiment_bounds [OF e] n e show ?thesis by simp
qed

text \<open>
  C3 as stated fails: an average rating of \<open>-5\<close> under \<^verbatim>\<open>review_metrics\<close> gives the
  Amazon sentiment \<open>-1\<close>, which is below 0; an average rating that is NaN gives the
  sentiment NaN, which is neither at least 0 nor at most 1.
\<close>

theorem sentiment_below_zero:
  "calculate_market_sentiment (PDict [(''review_metrics'', PDict [(''avg_rating'', PInt (- 5))])])
     (Platform_value AMAZON) = Inr (Finite (- 1)) \<and>
   \<not> float_le (Finite 0) (Finite (- 1)) \<and>
   calculate_market_sentiment (PDict [(''review_metrics'', PDict [(''avg_rating'', PNaN)])])
     (Platform_value AMAZON) = Inr NaN \<and>
   \<not> float_le (Finite 0) NaN \<and> \<not> float_le NaN (Finite 1)"
  by (simp add: sentiment_cases calculate_market_sentiment_body_def bindE_def py_min2_def
        int_small)

text \<open>
  C4. Sentiment computation is total: for every input it returns a number, and when the
  rule of the platform raises, the number is exactly 0.5.
\<close>

theorem sentiment_never_raises:
  "(\<exists>v. calculate_market_sentiment td p = Inr v) \<and>
   (\<forall>e. calculate_market_sentiment_body td p = Inl e \<longrightarrow>
        calculate_market_sentiment td p = Inr (Finite 0.5))"
  by (simp add: sentiment_cases)

theorem sentiment_never_raises_witness:
  "calculate_market_sentiment_body (PDict [(''review_metrics'', PStr ''n/a'')])
     (Platform_value AMAZON) = Inl AttributeError \<and>
   calculate_market_sentiment (PDict [(''review_metrics'', PStr ''n/a'')])
     (Platform_value AMAZON) = Inr (Finite 0.5) \<and>
   calculate_market_sentiment_body
     (PDict [(''review_metrics'', PDict [(''avg_rating'', PInt (2 ^ 1024))])])
     (Platform_value AMAZON) = Inl OverflowError \<and>
   calculate_market_sentiment
     (PDict [(''review_metrics'', PDict [(''avg_rating'', PInt (2 ^ 1024))])])
     (Platform_value AMAZON) = Inr (Finite 0.5)"
proof -
  have b: "calculate_market_sentiment_body (PDict [(''review_metrics'', PStr ''n/a'')])
             (Platform_value AMAZON) = Inl AttributeError"
    by (simp add: calculate_market_sentiment_body_def bindE_def)
  have c: "calculate_market_sentiment_body
             (PDict [(''review_metrics'', PDict [(''avg_rating'', PInt (2 ^ 1024))])])
             (Platform_value AMAZON) = Inl OverflowError"
    by (simp add: calculate_market_sentiment_body_def bindE_def int_too_large_def)
  from sentiment_never_raises
         [of "PDict [(''review_metrics'', PStr ''n/a'')]" "Platform_value AMAZON"]
       sentiment_never_raises
         [of "PDict [(''review_metrics'', PDict [(''avg_rating'', PInt (2 ^ 1024))])]"
             "Platform_value AMAZON"]
       b c
  show ?thesis by blast
qed

section \<open>What the adapters return\<close>

text \<open>
  Each loop body counts its item once: the Amazon loop in \<^verbatim>\<open>product_count\<close>, the Etsy
  loop in exactly one of the two shop-location counters.
\<close>

lemma amazon_body_count:
  "amazon_body x (P, tr, tt, n) = Inr (P1, tr1, tt1, n1) \<Longrightarrow> n1 = n + 1"
  by (auto simp: amazon_body_def bindE_def split: sum.splits option.splits list.splits)

lemma amazon_loop_count:
  "for_each amazon_body xs (P, tr, tt, n) = Inr (P', tr', tt', n') \<Longrightarrow> n' = n + int (length xs)"
proof (induction xs arbitrary: P tr tt n)
  case Nil
  then show ?case by simp
next
  case (Cons x xs)
  from Cons.prems obtain P1 tr1 tt1 n1 where
    one: "amazon_body x (P, tr, tt, n) = Inr (P1, tr1, tt1, n1)"
    and rest: "for_each amazon_body xs (P1, tr1, tt1, n1) = Inr (P', tr', tt', n')"
    by (cases "amazon_body x (P, tr, tt, n)") auto
  from Cons.IH [OF rest] amazon_body_count [OF one] show ?case by simp
qed



lemma fetch_amazon_trends_payload:
  assumes "fetch_amazon_trends si kw c = Inr d"
  shows "\<exists>items prices tr tt n.
           si kw = Inr items \<and>
           for_each amazon_body (take 20 items) ([], 0, 0, 0) = Inr (prices, tr, tt, n) \<and>
           d = PDict [(''avg_price'',
                        if prices = [] then PInt 0
                        else PFloat (sum_list prices / real (length prices))),
                      (''price_range'',
                        PDict [(''min'', if prices = [] then PInt 0 else PFloat (Min (set prices))),
                               (''max'', if prices = [] then PInt 0 else PFloat (Max (set prices)))]),
                      (''review_count'', PInt tr),
                      (''avg_rating'', if n > 0 then PFloat (tt / real_of_int n) else PInt 0),
                      (''total_products'', PInt n)]"
  using assms
  by (auto simp: fetch_amazon_trends_def fetch_amazon_trends_body_def bindE_def
        avg_price_eq price_range_eq py_div_def split: sum.splits prod.splits if_splits)

lemma fetch_ebay_trends_payload:
  assumes "fetch_ebay_trends ex kw c = Inr d"
  shows "\<exists>prices al sold tot.
           d = PDict [(''active_listings'', PInt al),
                      (''sold_last_month'', PInt sold),
                      (''avg_price'',
                        if prices = [] then PInt 0
                        else PFloat (sum_list prices / real (length prices))),
                      (''price_range'',
                        PDict [(''min'', if prices = [] then PInt 0 else PFloat (Min (set prices))),
                               (''max'', if prices = [] then PInt 0 else PFloat (Max (set prices)))]),
                      (''total_results'', PInt tot)]"
  using assms
  by (auto simp: fetch_ebay_trends_def fetch_ebay_trends_body_def bindE_def Let_def
        avg_price_eq price_range_eq split: sum.splits option.splits if_splits)

lemma fetch_google_trends_payload:
  assumes "fetch_google_trends pt kw c tf = Inr d"
  shows "\<exists>a b e. d = PDict [(''interest_over_time'', a), (''related_queries'', b),
                           (''related_topics'', e)]"
  using assms
  by (auto simp: fetch_google_trends_def fetch_google_trends_body_def bindE_def Let_def
        split: sum.splits)



text \<open>The payloads of the concrete sources.\<close>

lemmas adapter_defs =
  fetch_amazon_trends_def fetch_amazon_trends_body_def amazon_body_def
  fetch_ebay_trends_def fetch_ebay_trends_body_def ebay_body_def
  fetch_etsy_trends_def fetch_etsy_trends_body_def etsy_body_def
  fetch_google_trends_def fetch_google_trends_body_def records_or_empty_def
  avg_price_eq price_range_eq py_div_def bindE_def Let_def
  scenario_clients_def scenario_items_def scenario_search_def scenario_listings_def
  scenario_pytrends_def empty_clients_def

lemma scenario_amazon_payload:
  "fetch_amazon_trends (amazon_search_items scenario_clients) kw c =
     Inr (PDict [(''avg_price'', PFloat 20),
                 (''price_range'', PDict [(''min'', PFloat 10), (''max'', PFloat 30)]),
                 (''review_count'', PInt 200),
                 (''avg_rating'', PFloat 3),
                 (''total_products'', PInt 3)])"
  by (simp add: adapter_defs)

lemma scenario_ebay_payload:
  "fetch_ebay_trends (ebay_execute scenario_clients) kw c =
     Inr (PDict [(''active_listings'', PInt 500),
                 (''sold_last_month'', PInt 2),
                 (''avg_price'', PFloat 60),
                 (''price_range'', PDict [(''min'', PFloat 50), (''max'', PFloat 70)]),
                 (''total_results'', PInt 2)])"
  by (simp add: adapter_defs)


lemma scenario_google_payload:
  "fetch_google_trends (google_pytrends scenario_clients) kw c tf =
     Inr (PDict [(''interest_over_time'',
                    PDict [(''dates'', PList [PStr ''2024-01-07'', PStr ''2024-01-14'']),
                           (''values'', PList [PInt 40, PInt 60])]),
                 (''related_queries'', PDict [(''top'', PList []), (''rising'', PList [])]),
                 (''related_topics'', PDict [(''top'', PList []), (''rising'', PList [])])])"
  by (simp add: adapter_defs)

lemma empty_amazon_payload:
  "fetch_amazon_trends (amazon_search_items empty_clients) kw c =
     Inr (PDict [(''avg_price'', PInt 0),
                 (''price_range'', PDict [(''min'', PInt 0), (''max'', PInt 0)]),
                 (''review_count'', PInt 0),
                 (''avg_rating'', PInt 0),
                 (''total_products'', PInt 0)])"
  by (simp add: adapter_defs)





section \<open>The endpoint\<close>

lemma handlers_lookup:
  "map_of handlers p =
     Some (case p of AMAZON \<Rightarrow> Fetch_amazon_trends
                   | EBAY \<Rightarrow> Fetch_ebay_trends
                   | GOOGLE \<Rightarrow> Fetch_google_trends)"
  by (cases p) (simp_all add: handlers_def)

lemma Platform_of_value: "Platform_of (Platform_value p) = Some p"
  by (cases p) (simp_all add: Platform_of_def)

lemma Platform_of_Some: "Platform_of v = Some p \<Longrightarrow> v = Platform_value p"
  by (cases p) (auto simp: Platform_of_def split: if_splits)

lemma registered_iff: "registered v = (Platform_of v \<noteq> None)"
  by (auto simp: registered_def handlers_def Platform_of_def)

lemma get_trends_success:
  assumes "get_trends cl now rq = (calls, Inr r)"
  shows "\<exists>h s tp.
           map_of handlers (rq_platform rq) = Some h \<and> calls = [h] \<and>
           (if rq_platform rq = GOOGLE
            then call3 cl h (rq_keyword rq) (rq_country rq)
                   (map_option TimeFrame_value (rq_timeframe rq))
            else call2 cl h (rq_keyword rq) (rq_country rq)) = Inr (rs_trend_data r) \<and>
           calculate_market_sentiment (rs_trend_data r) (Platform_value (rq_platform rq))
             = Inr s \<and>
           rs_market_sentiment r = Some s \<and>
           (rs_price_range r \<noteq> None) = dict_contains (rs_trend_data r) ''price_range'' \<and>
           dict_get (rs_trend_data r) ''total_products'' (PInt 0) = Inr tp \<and>
           as_optional_int tp = Inr (rs_search_volume r)"
  using assms
  by (auto simp: get_trends_def get_trends_body_def bindE_def
        split: option.splits sum.splits prod.splits if_splits)

text \<open>The payload that a successful request carries, by platform.\<close>

lemma get_trends_payload:
  assumes "get_trends cl now rq = (calls, Inr r)"
  shows "(rq_platform rq = AMAZON \<and>
            fetch_amazon_trends (amazon_search_items cl) (rq_keyword rq) (rq_country rq)
              = Inr (rs_trend_data r)) \<or>
         (rq_platform rq = EBAY \<and>
            fetch_ebay_trends (ebay_execute cl) (rq_keyword rq) (rq_country rq)
              = Inr (rs_trend_data r)) \<or>
         (rq_platform rq = GOOGLE \<and>
            fetch_google_trends (google_pytrends cl) (rq_keyword rq) (rq_country rq)
              (map_option TimeFrame_value (rq_timeframe rq)) = Inr (rs_trend_data r))"
  using get_trends_success [OF assms]
  by (cases "rq_platform rq") (auto simp: handlers_lookup)

lemma sentiment_without_field:
  "map_of kvs ''review_metrics'' = None \<Longrightarrow>
     calculate_market_sentiment (PDict kvs) ''amazon'' = Inr (Finite 0)"
  "map_of kvs ''condition_distribution'' = None \<Longrightarrow>
     calculate_market_sentiment (PDict kvs) ''ebay'' = Inr (Finite 0)"
  "map_of kvs ''trend_summary'' = None \<Longrightarrow>
     calculate_market_sentiment (PDict kvs) ''google'' = Inr (Finite 0)"
  by (simp_all add: sentiment_cases calculate_market_sentiment_body_def bindE_def py_min2_def
        int_zero)

text \<open>
  The Amazon rule reads \<^verbatim>\<open>avg_rating\<close> under the key \<^verbatim>\<open>review_metrics\<close>; the Amazon
  adapter writes \<^verbatim>\<open>avg_rating\<close> at the top of its payload and no \<^verbatim>\<open>review_metrics\<close>.
  The rule therefore divides its default 0, for every successful Amazon request.
\<close>

lemma amazon_sentiment_zero:
  assumes "get_trends cl now rq = (calls, Inr r)"
    and "rq_platform rq = AMAZON"
  shows "rs_market_sentiment r = Some (Finite 0)"
proof -
  from get_trends_success [OF assms(1)] obtain s where
    s: "calculate_market_sentiment (rs_trend_data r) (Platform_value (rq_platform rq)) = Inr s"
       "rs_market_sentiment r = Some s"
    by blast
  from get_trends_payload [OF assms(1)] assms(2)
  have "fetch_amazon_trends (amazon_search_items cl) (rq_keyword rq) (rq_country rq)
              = Inr (rs_trend_data r)"
    by auto
  from fetch_amazon_trends_payload [OF this] s(1) assms(2) have "s = Finite 0"
    by (auto simp: sentiment_without_field)
  with s(2) show ?thesis by simp
qed

lemmas endpoint_defs =
  get_trends_def get_trends_body_def handlers_def request_for_def response_of_def
  sentiment_cases calculate_market_sentiment_body_def py_min2_def bindE_def int_zero

lemma scenario_amazon_response:
  "get_trends scenario_clients now (request_for AMAZON ''United States'' ''wireless headphones'') =
     ([Fetch_amazon_trends],
      Inr \<lparr>rs_platform = ''amazon'', rs_country = ''United States'',
           rs_keyword = ''wireless headphones'', rs_timestamp = now,
           rs_trend_data =
             PDict [(''avg_price'', PFloat 20),
                    (''price_range'', PDict [(''min'', PFloat 10), (''max'', PFloat 30)]),
                    (''review_count'', PInt 200),
                    (''avg_rating'', PFloat 3),
                    (''total_products'', PInt 3)],
           rs_price_range = Some \<lparr>pr_min = 10, pr_max = 30\<rparr>,
           rs_search_volume = Some 3,
           rs_market_sentiment = Some (Finite 0),
           rs_error = None\<rparr>)"
  by (simp add: endpoint_defs scenario_amazon_payload)

lemma scenario_ebay_response:
  "get_trends scenario_clients now (request_for EBAY ''United Kingdom'' ''smart watch'') =
     ([Fetch_ebay_trends],
      Inr \<lparr>rs_platform = ''ebay'', rs_country = ''United Kingdom'',
           rs_keyword = ''smart watch'', rs_timestamp = now,
           rs_trend_data =
             PDict [(''active_listings'', PInt 500),
                    (''sold_last_month'', PInt 2),
                    (''avg_price'', PFloat 60),
                    (''price_range'', PDict [(''min'', PFloat 50), (''max'', PFloat 70)]),
                    (''total_results'', PInt 2)],
           rs_price_range = Some \<lparr>pr_min = 50, pr_max = 70\<rparr>,
           rs_search_volume = Some 0,
           rs_market_sentiment = Some (Finite 0),
           rs_error = None\<rparr>)"
  by (simp add: endpoint_defs scenario_ebay_payload)

lemma scenario_google_response:
  "get_trends scenario_clients now (request_for GOOGLE ''United States'' ''smart watch'') =
     ([Fetch_google_trends],
      Inr \<lparr>rs_platform = ''google'', rs_country = ''United States'',
           rs_keyword = ''smart watch'', rs_timestamp = now,
           rs_trend_data =
             PDict [(''interest_over_time'',
                      PDict [(''dates'', PList [PStr ''2024-01-07'', PStr ''2024-01-14'']),
                             (''values'', PList [PInt 40, PInt 60])]),
                    (''related_queries'', PDict [(''top'', PList []), (''rising'', PList [])]),
                    (''related_topics'', PDict [(''top'', PList []), (''rising'', PList [])])],
           rs_price_range = None,
           rs_search_volume = Some 0,
           rs_market_sentiment = Some (Finite 0),
           rs_error = None\<rparr>)"
  by (simp add: endpoint_defs scenario_google_payload)

lemma empty_amazon_response:
  "get_trends empty_clients now (request_for AMAZON ''United States'' ''wireless headphones'') =
     ([Fetch_amazon_trends],
      Inr \<lparr>rs_platform = ''amazon'', rs_country = ''United States'',
           rs_keyword = ''wireless headphones'', rs_timestamp = now,
           rs_trend_data =
             PDict [(''avg_price'', PInt 0),
                    (''price_range'', PDict [(''min'', PInt 0), (''max'', PInt 0)]),
                    (''review_count'', PInt 0),
                    (''avg_rating'', PInt 0),
                    (''total_products'', PInt 0)],
           rs_price_range = Some \<lparr>pr_min = 0, pr_max = 0\<rparr>,
           rs_search_volume = Some 0,
           rs_market_sentiment = Some (Finite 0),
           rs_error = None\<rparr>)"
  by (simp add: endpoint_defs empty_amazon_payload)

text \<open>
  C1, at the scenario of three results (prices 10, 20, 30; ratings 4, 5 and none): the
  adapter reports the average price 20, the price range 10 to 30 and the average rating
  3, and the response carries the sentiment 0, where \<^verbatim>\<open>min(3.0 / 5.0, 1.0)\<close> is 0.6.
\<close>

theorem amazon_scenario_sentiment:
  "fetch_amazon_trends (amazon_search_items scenario_clients) ''wireless headphones''
     ''United States'' =
     Inr (PDict [(''avg_price'', PFloat 20),
                 (''price_range'', PDict [(''min'', PFloat 10), (''max'', PFloat 30)]),
                 (''review_count'', PInt 200),
                 (''avg_rating'', PFloat 3),
                 (''total_products'', PInt 3)]) \<and>
   map_option rs_market_sentiment
     (response_of (get_trends scenario_clients ''2024-01-15T10:00:00''
        (request_for AMAZON ''United States'' ''wireless headphones'')))
     = Some (Some (Finite 0)) \<and>
   py_min2 (Finite (3 / 5)) (Finite 1) = Finite 0.6"
  by (simp add: scenario_amazon_payload scenario_amazon_response response_of_def py_min2_def)

text \<open>
  C2 as stated fails: the eBay request of the scenario succeeds with the sentiment 0,
  not the neutral 0.5.
\<close>

theorem ebay_sentiment_not_neutral:
  "map_option rs_market_sentiment
     (response_of (get_trends scenario_clients ''2024-01-15T10:00:00''
        (request_for EBAY ''United Kingdom'' ''smart watch''))) = Some (Some (Finite 0)) \<and>
   map_option rs_market_sentiment
     (response_of (get_trends scenario_clients ''2024-01-15T10:00:00''
        (request_for EBAY ''United Kingdom'' ''smart watch''))) \<noteq> Some (Some (Finite 0.5))"
  by (simp add: scenario_ebay_response response_of_def)

text \<open>
  C2, as the code has it. The eBay and the Google adapter never write the entry that
  their rule reads, the rule reads it with the default 0, and every successful eBay or
  Google request carries the sentiment 0; the neutral default is not reached.
\<close>

theorem ebay_google_sentiment_zero:
  assumes "get_trends cl now rq = (calls, Inr r)"
    and "rq_platform rq = EBAY \<or> rq_platform rq = GOOGLE"
  shows "rs_market_sentiment r = Some (Finite 0)"
proof -
  from get_trends_success [OF assms(1)] obtain s where
    s: "calculate_market_sentiment (rs_trend_data r) (Platform_value (rq_platform rq)) = Inr s"
       "rs_market_sentiment r = Some s"
    by blast
  from get_trends_payload [OF assms(1)] assms(2)
  consider (ebay) "rq_platform rq = EBAY"
      "fetch_ebay_trends (ebay_execute cl) (rq_keyword rq) (rq_country rq) = Inr (rs_trend_data r)"
    | (google) "rq_platform rq = GOOGLE"
      "fetch_google_trends (google_pytrends cl) (rq_keyword rq) (rq_country rq)
              (map_option TimeFrame_value (rq_timeframe rq)) = Inr (rs_trend_data r)"
    by auto
  then have "s = Finite 0"
  proof cases
    case ebay
    from fetch_ebay_trends_payload [OF ebay(2)] s(1) ebay(1) show ?thesis
      by (auto simp: sentiment_without_field)
  next
    case google
    from fetch_google_trends_payload [OF google(2)] s(1) google(1) show ?thesis
      by (auto simp: sentiment_without_field)
  qed
  with s(2) show ?thesis by simp
qed

theorem ebay_google_sentiment_zero_witness:
  "rq_platform (request_for EBAY ''United Kingdom'' ''smart watch'') = EBAY \<and>
   rq_platform (request_for GOOGLE ''United States'' ''smart watch'') = GOOGLE \<and>
   map_option rs_market_sentiment
     (response_of (get_trends scenario_clients ''2024-01-15T10:00:00''
        (request_for EBAY ''United Kingdom'' ''smart watch''))) = Some (Some (Finite 0)) \<and>
   map_option rs_market_sentiment
     (response_of (get_trends scenario_clients ''2024-01-15T10:00:00''
        (request_for GOOGLE ''United States'' ''smart watch''))) = Some (Some (Finite 0))"
proof -
  have e: "rq_platform (request_for EBAY ''United Kingdom'' ''smart watch'') = EBAY"
    and g: "rq_platform (request_for GOOGLE ''United States'' ''smart watch'') = GOOGLE"
    by (simp_all add: request_for_def)
  from ebay_google_sentiment_zero
         [OF scenario_ebay_response [of "''2024-01-15T10:00:00''"], OF disjI1 [OF e]]
       ebay_google_sentiment_zero
         [OF scenario_google_response [of "''2024-01-15T10:00:00''"], OF disjI2 [OF g]]
       e g
  show ?thesis
    by (simp add: scenario_ebay_response scenario_google_response response_of_def)
qed

text \<open>
  C5 as stated fails: an Amazon search without results observes no price, and the
  response has a price range, from 0 to 0.
\<close>

theorem price_range_present_without_prices:
  "fetch_amazon_trends (amazon_search_items empty_clients) ''wireless headphones''
     ''United States'' =
     Inr (PDict [(''avg_price'', PInt 0),
                 (''price_range'', PDict [(''min'', PInt 0), (''max'', PInt 0)]),
                 (''review_count'', PInt 0),
                 (''avg_rating'', PInt 0),
                 (''total_products'', PInt 0)]) \<and>
   map_option rs_price_range
     (response_of (get_trends empty_clients ''2024-01-15T10:00:00''
        (request_for AMAZON ''United States'' ''wireless headphones'')))
     = Some (Some \<lparr>pr_min = 0, pr_max = 0\<rparr>)"
  by (simp add: empty_amazon_payload empty_amazon_response response_of_def)

text \<open>
  C5, as the code has it. The response has a price range exactly when the payload of the
  adapter has the entry \<^verbatim>\<open>price_range\<close>: for every successful Amazon or eBay request,
  whatever the prices observed, and for no Google request.
\<close>

theorem price_range_presence:
  assumes "get_trends cl now rq = (calls, Inr r)"
  shows "(rs_price_range r \<noteq> None) = dict_contains (rs_trend_data r) ''price_range'' \<and>
         (rq_platform rq = AMAZON \<or> rq_platform rq = EBAY \<longrightarrow> rs_price_range r \<noteq> None) \<and>
         (rq_platform rq = GOOGLE \<longrightarrow> rs_price_range r = None)"
proof -
  from get_trends_success [OF assms] have
    iff: "(rs_price_range r \<noteq> None) = dict_contains (rs_trend_data r) ''price_range''"
    by blast
  from get_trends_payload [OF assms]
  have "(rq_platform rq = AMAZON \<or> rq_platform rq = EBAY \<longrightarrow>
           dict_contains (rs_trend_data r) ''price_range'') \<and>
        (rq_platform rq = GOOGLE \<longrightarrow> \<not> dict_contains (rs_trend_data r) ''price_range'')"
    by (auto dest!: fetch_amazon_trends_payload fetch_ebay_trends_payload
          fetch_google_trends_payload)
  with iff show ?thesis by auto
qed

theorem price_range_presence_witness:
  "rq_platform (request_for AMAZON ''United States'' ''wireless headphones'') = AMAZON \<and>
   rq_platform (request_for GOOGLE ''United States'' ''smart watch'') = GOOGLE \<and>
   map_option rs_price_range
     (response_of (get_trends empty_clients ''2024-01-15T10:00:00''
        (request_for AMAZON ''United States'' ''wireless headphones''))) \<noteq> Some None \<and>
   map_option rs_price_range
     (response_of (get_trends scenario_clients ''2024-01-15T10:00:00''
        (request_for GOOGLE ''United States'' ''smart watch''))) = Some None"
proof -
  have a: "rq_platform (request_for AMAZON ''United States'' ''wireless headphones'') = AMAZON"
    and g: "rq_platform (request_for GOOGLE ''United States'' ''smart watch'') = GOOGLE"
    by (simp_all add: request_for_def)
  from price_range_presence [OF empty_amazon_response [of "''2024-01-15T10:00:00''"]]
       price_range_presence [OF scenario_google_response [of "''2024-01-15T10:00:00''"]]
       a g
  show ?thesis
    by (simp add: empty_amazon_response scenario_google_response response_of_def)
qed

text \<open>
  C6 as stated fails: the eBay payload has no entry \<^verbatim>\<open>total_products\<close>, and the
  response has the search volume 0, it is not omitted.
\<close>

theorem search_volume_not_omitted:
  "map_option rs_trend_data
     (response_of (get_trends scenario_clients ''2024-01-15T10:00:00''
        (request_for EBAY ''United Kingdom'' ''smart watch''))) =
     Some (PDict [(''active_listings'', PInt 500),
                  (''sold_last_month'', PInt 2),
                  (''avg_price'', PFloat 60),
                  (''price_range'', PDict [(''min'', PFloat 50), (''max'', PFloat 70)]),
                  (''total_results'', PInt 2)]) \<and>
   map_option rs_search_volume
     (response_of (get_trends scenario_clients ''2024-01-15T10:00:00''
        (request_for EBAY ''United Kingdom'' ''smart watch''))) = Some (Some 0)"
  by (simp add: scenario_ebay_response response_of_def)

text \<open>
  C6, as the code has it. The search volume is never omitted: for Amazon it is the entry
  \<^verbatim>\<open>total_products\<close>, the number of results inspected (at most 20); for eBay and
  Google the payload has no such entry and the search volume is the default 0.
\<close>

theorem search_volume_default:
  assumes "get_trends cl now rq = (calls, Inr r)"
  shows "(rq_platform rq = AMAZON \<longrightarrow>
            (\<exists>items. amazon_search_items cl (rq_keyword rq) = Inr items \<and>
                     dict_get (rs_trend_data r) ''total_products'' PNone
                       = Inr (PInt (int (min 20 (length items)))) \<and>
                     rs_search_volume r = Some (int (min 20 (length items))))) \<and>
         (rq_platform rq \<noteq> AMAZON \<longrightarrow>
            \<not> dict_contains (rs_trend_data r) ''total_products'' \<and>
            rs_search_volume r = Some 0)"
proof -
  from get_trends_success [OF assms] obtain tp where
    tp: "dict_get (rs_trend_data r) ''total_products'' (PInt 0) = Inr tp"
        "as_optional_int tp = Inr (rs_search_volume r)"
    by blast
  from get_trends_payload [OF assms]
  consider (amazon) "rq_platform rq = AMAZON"
      "fetch_amazon_trends (amazon_search_items cl) (rq_keyword rq) (rq_country rq)
         = Inr (rs_trend_data r)"
    | (ebay) "rq_platform rq = EBAY"
      "fetch_ebay_trends (ebay_execute cl) (rq_keyword rq) (rq_country rq) = Inr (rs_trend_data r)"
    | (google) "rq_platform rq = GOOGLE"
      "fetch_google_trends (google_pytrends cl) (rq_keyword rq) (rq_country rq)
              (map_option TimeFrame_value (rq_timeframe rq)) = Inr (rs_trend_data r)"
    by blast
  then show ?thesis
  proof cases
    case amazon
    from fetch_amazon_trends_payload [OF amazon(2)] obtain items prices tr tt n where
      items: "amazon_search_items cl (rq_keyword rq) = Inr items"
      and loop: "for_each amazon_body (take 20 items) ([], 0, 0, 0) = Inr (prices, tr, tt, n)"
      and n: "dict_get (rs_trend_data r) ''total_products'' PNone = Inr (PInt n)"
             "dict_get (rs_trend_data r) ''total_products'' (PInt 0) = Inr (PInt n)"
      by auto
    from amazon_loop_count [OF loop] have "n = int (min 20 (length items))"
      by (simp add: min.commute)
    with items n tp amazon(1) show ?thesis by auto
  next
    case ebay
    from fetch_ebay_trends_payload [OF ebay(2)] tp ebay(1) show ?thesis
      by auto
  next
    case google
    from fetch_google_trends_payload [OF google(2)] tp google(1) show ?thesis
      by auto
  qed
qed

theorem search_volume_default_witness:
  "rq_platform (request_for AMAZON ''United States'' ''wireless headphones'') = AMAZON \<and>
   rq_platform (request_for EBAY ''United Kingdom'' ''smart watch'') \<noteq> AMAZON \<and>
   map_option rs_search_volume
     (response_of (get_trends scenario_clients ''2024-01-15T10:00:00''
        (request_for AMAZON ''United States'' ''wireless headphones''))) = Some (Some 3) \<and>
   map_option rs_search_volume
     (response_of (get_trends scenario_clients ''2024-01-15T10:00:00''
        (request_for EBAY ''United Kingdom'' ''smart watch''))) = Some (Some 0)"
proof -
  have a: "rq_platform (request_for AMAZON ''United States'' ''wireless headphones'') = AMAZON"
    and e: "rq_platform (request_for EBAY ''United Kingdom'' ''smart watch'') \<noteq> AMAZON"
    by (simp_all add: request_for_def)
  from search_volume_default [OF scenario_amazon_response [of "''2024-01-15T10:00:00''"]]
       search_volume_default [OF scenario_ebay_response [of "''2024-01-15T10:00:00''"]]
       a e
  show ?thesis
    by (simp add: scenario_amazon_response scenario_ebay_response response_of_def)
qed

text \<open>
  Every member of \<^verbatim>\<open>Platform\<close> is a key of the dispatch table: \<^verbatim>\<open>get_trends\<close>
  invokes one adapter for every request that it is called with, and its own
  \<^verbatim>\<open>Unsupported platform\<close> answer is never given.
\<close>

lemma get_trends_invokes_one: "\<exists>h. fst (get_trends cl now rq) = [h]"
  by (simp add: get_trends_def get_trends_body_def handlers_lookup split: sum.splits)

text \<open>
  A body with the value of a member of \<^verbatim>\<open>Platform\<close>, a country and a keyword of the
  lengths allowed and no time frame validates, and \<^verbatim>\<open>get_trends\<close> is called with the
  member and the default time frame.
\<close>

lemma post_trends_valid:
  assumes "Platform_of (body_platform body) = Some p"
    and "2 \<le> length (body_country body)" "length (body_country body) \<le> 56"
    and "1 \<le> length (body_keyword body)" "length (body_keyword body) \<le> 100"
    and "body_timeframe body = None"
  shows "post_trends cl now body =
           get_trends cl now
             \<lparr>rq_platform = p, rq_country = body_country body,
              rq_keyword = body_keyword body, rq_timeframe = Some LAST_3_MONTHS\<rparr>"
  using assms
  by (auto simp: post_trends_def validate_TrendRequest_def check_enum_def check_length_def
        Let_def)

text \<open>
  C9. A request whose source value has no handler in the dispatch table is rejected as
  not supported, and no adapter is invoked: the value is no member of \<^verbatim>\<open>Platform\<close>,
  the body does not validate, and the answer names the field and the value. The value
  \<^verbatim>\<open>etsy\<close> is such a value.
\<close>

theorem unsupported_platform_rejected:
  "(\<not> registered (body_platform body) \<longrightarrow>
      (\<exists>rest. post_trends cl now body =
         ([], Inl (RequestValidationError
                     (Enum_error ''platform'' (body_platform body) # rest))))) \<and>
   \<not> registered ''etsy''"
proof (intro conjI impI)
  assume "\<not> registered (body_platform body)"
  then have "Platform_of (body_platform body) = None"
    by (simp add: registered_iff)
  then show "\<exists>rest. post_trends cl now body =
         ([], Inl (RequestValidationError
                     (Enum_error ''platform'' (body_platform body) # rest)))"
    by (simp add: post_trends_def validate_TrendRequest_def check_enum_def issues_def Let_def)
next
  show "\<not> registered ''etsy''"
    by (simp add: registered_def handlers_def)
qed

theorem unsupported_platform_rejected_witness:
  "\<not> registered (body_platform (body_for ''etsy'' ''Canada'' ''handmade jewelry'')) \<and>
   post_trends scenario_clients ''2024-01-15T10:00:00''
     (body_for ''etsy'' ''Canada'' ''handmade jewelry'') =
     ([], Inl (RequestValidationError [Enum_error ''platform'' ''etsy'']))"
proof -
  have n: "\<not> registered (body_platform (body_for ''etsy'' ''Canada'' ''handmade jewelry''))"
    by (simp add: body_for_def registered_def handlers_def)
  have v: "post_trends scenario_clients ''2024-01-15T10:00:00''
             (body_for ''etsy'' ''Canada'' ''handmade jewelry'') =
             ([], Inl (RequestValidationError [Enum_error ''platform'' ''etsy'']))"
    by (simp add: post_trends_def validate_TrendRequest_def check_enum_def check_length_def
          issues_def Let_def body_for_def Platform_of_def)
  from unsupported_platform_rejected
         [of "body_for ''etsy'' ''Canada'' ''handmade jewelry''" scenario_clients
             "''2024-01-15T10:00:00''"] n v
  show ?thesis by simp
qed

end
